theory Spec2Isabelle
  imports Main "HOL-Library.Word"
begin

section \<open>Values the Struct constructor receives\<close>

text \<open>
  The development follows \<^verbatim>\<open>packages/types-codec/src/native/Struct.ts\<close>.
  Byte arrays (\<^verbatim>\<open>Uint8Array\<close>) are lists of 8-bit words. Field names, class names and
  error messages are HOL strings; a string \<^emph>\<open>value\<close> is the list of its characters, each
  given by its Unicode number, so that text outside ASCII can be written down.
\<close>

type_synonym u8a = "8 word list"
type_synonym jsstring = "nat list"

definition str :: "string \<Rightarrow> jsstring" where
  "str s = map of_char s"

text \<open>
  \<^verbatim>\<open>BareOpts = boolean | Record<string, boolean>\<close>, or absent.
\<close>

datatype BareOpts = BareUndefined | BareBool bool | BareRecord "(string \<times> bool) list"

text \<open>
  A codec instance is an object: it is given by what its members return. \<open>structEntries\<close>
  is \<open>Some\<close> of the entries of the underlying \<^verbatim>\<open>Map\<close> exactly when the object is an
  instance of \<^verbatim>\<open>Struct\<close>. \<open>toRawType\<close> is \<open>None\<close> when the method throws.
\<close>

datatype Codec = Codec
  (className: string)
  (toU8a: "BareOpts \<Rightarrow> u8a")
  (encodedLength: nat)
  (isEmpty: bool)
  (initialU8aLength: "nat option")
  (toRawType: "string option")
  (structEntries: "(string \<times> Codec) list option")

text \<open>
  JavaScript values. An object is the list of its enumerable string-keyed properties in
  \<^verbatim>\<open>Object.entries\<close> order (properties inherited from a prototype are not modelled); a
  \<^verbatim>\<open>Map\<close> is the list of its entries in insertion order. \<open>JCodec c b\<close> is the codec
  instance \<open>c\<close>, where \<open>b\<close> is the built-in object its class extends (a byte array, an
  array, a map or a plain object), which is what \<^verbatim>\<open>Array.isArray\<close>, \<^verbatim>\<open>instanceof Map\<close>
  and property access see.
\<close>

datatype jsval =
    JUndefined
  | JNull
  | JBool bool
  | JNum int
  | JStr jsstring
  | JU8a u8a
  | JArr "jsval list"
  | JMap "(jsval \<times> jsval) list"
  | JObj "(string \<times> jsval) list"
  | JCodec Codec jsval

fun shape :: "jsval \<Rightarrow> jsval" where
  "shape (JCodec c b) = shape b"
| "shape v = v"

fun truthy :: "jsval \<Rightarrow> bool" where
  "truthy JUndefined = False"
| "truthy JNull = False"
| "truthy (JBool b) = b"
| "truthy (JNum n) = (n \<noteq> 0)"
| "truthy (JStr s) = (s \<noteq> [])"
| "truthy v = True"

fun typeof :: "jsval \<Rightarrow> string" where
  "typeof JUndefined = ''undefined''"
| "typeof (JBool b) = ''boolean''"
| "typeof (JNum n) = ''number''"
| "typeof (JStr s) = ''string''"
| "typeof v = ''object''"

text \<open>\<^verbatim>\<open>isObject\<close> of @polkadot/util: \<^verbatim>\<open>!!value && typeof value === 'object'\<close>.\<close>

definition isObject :: "jsval \<Rightarrow> bool" where
  "isObject value = (truthy value \<and> typeof value = ''object'')"

fun isU8a :: "jsval \<Rightarrow> bool" where
  "isU8a value = (case shape value of JU8a b \<Rightarrow> True | _ \<Rightarrow> False)"

fun u8aOf :: "jsval \<Rightarrow> u8a" where
  "u8aOf value = (case shape value of JU8a b \<Rightarrow> b | _ \<Rightarrow> [])"

text \<open>\<^verbatim>\<open>value instanceof Struct\<close>, with the entries of the instance.\<close>

fun asStruct :: "jsval \<Rightarrow> (string \<times> Codec) list option" where
  "asStruct (JCodec c b) = structEntries c"
| "asStruct v = None"

section \<open>Codec classes and what is imported from outside the file\<close>

text \<open>
  A codec class \<^verbatim>\<open>CodecClass\<close>: its \<^verbatim>\<open>name\<close>, its constructor
  \<^verbatim>\<open>new Type(registry, value)\<close> (the registry is the one of the enclosing construction,
  passed on unchanged; \<open>Inl\<close> is the message of the \<^verbatim>\<open>Error\<close> thrown) and the
  test \<^verbatim>\<open>x instanceof Type\<close> on codec instances.
\<close>

record CodecClass =
  name :: string
  construct :: "jsval \<Rightarrow> string + Codec"
  isInstance :: "Codec \<Rightarrow> bool"

text \<open>
  The functions of the library @polkadot/util that the file calls and whose results depend
  on the contents of strings. They belong to another repository and are parameters here.
\<close>

record Util =
  stringCamelCase :: "string \<Rightarrow> string"
  stringify :: "jsval \<Rightarrow> string"
  isHex :: "jsstring \<Rightarrow> bool"
  hexToU8a :: "jsstring \<Rightarrow> u8a"

text \<open>
  The registry, as far as the file uses it: resolving a type name to a class. A table of
  types \<^verbatim>\<open>Record<string, T>\<close> is the list of its entries in the order of
  \<^verbatim>\<open>Object.keys\<close>; the keys of an object are distinct, which the properties below
  assume of the declared types.
\<close>

record Registry =
  createClass :: "string \<Rightarrow> string + CodecClass"

datatype TypeDef = TypeName string | TypeClass CodecClass

text \<open>
  Modelled from the spec: \<^verbatim>\<open>typeToConstructor\<close> of \<^verbatim>\<open>../utils\<close>, which is not among
  the sources. A descriptor that is a name resolves through the registry, with the error of
  the registry when it does not; a descriptor that is a class is that class.
\<close>

definition typeToConstructor :: "Registry \<Rightarrow> TypeDef \<Rightarrow> string + CodecClass" where
  "typeToConstructor registry t =
     (case t of TypeName n \<Rightarrow> createClass registry n | TypeClass T \<Rightarrow> Inr T)"

text \<open>
  Modelled from the spec: \<^verbatim>\<open>mapToTypeMap\<close> of \<^verbatim>\<open>../utils\<close>, which is not among the
  sources. Descriptors resolve through the registry to constructors before any instance
  is built; an unresolved descriptor fails the construction. Keys and their order are kept.
\<close>

fun mapToTypeMap ::
  "Registry \<Rightarrow> (string \<times> TypeDef) list \<Rightarrow> string + (string \<times> CodecClass) list" where
  "mapToTypeMap registry [] = Inr []"
| "mapToTypeMap registry ((k, t) # input) =
     (case typeToConstructor registry t of
        Inl e \<Rightarrow> Inl e
      | Inr T \<Rightarrow>
          (case mapToTypeMap registry input of
             Inl e \<Rightarrow> Inl e
           | Inr output \<Rightarrow> Inr ((k, T) # output)))"

text \<open>
  Modelled from the spec: the consumed length of a decoded child, which \<^verbatim>\<open>decodeU8a\<close>
  sums: its \<^verbatim>\<open>initialU8aLength\<close> (the field of lines 97 and 116) when it recorded one,
  its encoded length otherwise.
\<close>

definition consumed :: "Codec \<Rightarrow> nat" where
  "consumed c =
     (case initialU8aLength c of
        None \<Rightarrow> encodedLength c
      | Some n \<Rightarrow> if n = 0 then encodedLength c else n)"

text \<open>
  Modelled from the spec: \<^verbatim>\<open>decodeU8a\<close> of \<^verbatim>\<open>../utils\<close>, which is not among the
  sources. A struct is decoded from a byte buffer by decoding each field's codec in
  declared order, each from the bytes that the fields before it left, and summing the
  consumed lengths; a child's error is re-surfaced with the field name in front.
\<close>

fun decodeU8a ::
  "u8a \<Rightarrow> (string \<times> CodecClass) list \<Rightarrow> nat \<Rightarrow> string + ((string \<times> Codec) list \<times> nat)" where
  "decodeU8a u8a [] offset = Inr ([], offset)"
| "decodeU8a u8a ((key, Type) # rest) offset =
     (case construct Type (JU8a (drop offset u8a)) of
        Inl message \<Rightarrow> Inl (''decodeU8a: failed on '' @ key @ '':: '' @ message)
      | Inr c \<Rightarrow>
          (case decodeU8a u8a rest (offset + consumed c) of
             Inl e \<Rightarrow> Inl e
           | Inr (result, offset') \<Rightarrow> Inr ((key, c) # result, offset')))"

section \<open>Maps and objects\<close>

text \<open>
  \<^verbatim>\<open>Map.prototype.set\<close> on an insertion-ordered entry list: an existing key keeps its
  place and takes the new value, a new key goes to the end. \<open>Map_new\<close> is
  \<^verbatim>\<open>new Map(iterable)\<close>; an object is written to in the same way.
\<close>

fun Map_set :: "('k \<times> 'v) list \<Rightarrow> 'k \<Rightarrow> 'v \<Rightarrow> ('k \<times> 'v) list" where
  "Map_set [] k v = [(k, v)]"
| "Map_set ((k', v') # m) k v =
     (if k' = k then (k, v) # m else (k', v') # Map_set m k v)"

definition Map_new :: "('k \<times> 'v) list \<Rightarrow> ('k \<times> 'v) list" where
  "Map_new iterable = fold (\<lambda>(k, v) m. Map_set m k v) iterable []"

text \<open>\<^verbatim>\<open>value.get(jsonKey)\<close> on a \<^verbatim>\<open>Map\<close> with arbitrary keys, for a string key.\<close>

fun Map_get :: "(jsval \<times> jsval) list \<Rightarrow> string \<Rightarrow> jsval" where
  "Map_get [] k = JUndefined"
| "Map_get ((JStr k', v) # m) k = (if k' = str k then v else Map_get m k)"
| "Map_get ((k', v) # m) k = Map_get m k"

text \<open>\<^verbatim>\<open>value[jsonKey]\<close> on an object: \<^verbatim>\<open>undefined\<close> when there is no such property.\<close>

definition obj_get :: "(string \<times> jsval) list \<Rightarrow> string \<Rightarrow> jsval" where
  "obj_get ps k = (case map_of ps k of None \<Rightarrow> JUndefined | Some v \<Rightarrow> v)"

section \<open>decodeStructFromObject\<close>

text \<open>
  Lines 41 to 47: the object with every key of the input passed through
  \<^verbatim>\<open>stringCamelCase\<close>, written entry by entry. The source builds it at most once, when the
  first field needs it; it depends on the input only.
\<close>

definition jsonObjOf :: "Util \<Rightarrow> (string \<times> jsval) list \<Rightarrow> (string \<times> jsval) list" where
  "jsonObjOf U entries =
     fold (\<lambda>(k, v) jsonObj. Map_set jsonObj (stringCamelCase U k) v) entries []"

text \<open>Line 27: \<^verbatim>\<open>jsonMap.get(key) || key\<close>.\<close>

definition jsonKeyOf :: "(string \<times> string) list \<Rightarrow> string \<Rightarrow> string" where
  "jsonKeyOf jsonMap key =
     (case map_of jsonMap key of
        None \<Rightarrow> key
      | Some alias \<Rightarrow> if alias = [] then key else alias)"

text \<open>
  Lines 32 to 52: the value assigned to field \<open>i\<close>. \<open>value\<close> is the input as
  \<open>shape\<close> shows it. An index outside an array reads \<^verbatim>\<open>undefined\<close>;
  \<^verbatim>\<open>jsonKey && e\<close> is the empty string itself when \<open>jsonKey\<close> is empty. The last case is
  never reached from the constructor, which takes byte arrays before.
\<close>

fun assignOf :: "Util \<Rightarrow> jsval \<Rightarrow> nat \<Rightarrow> string \<Rightarrow> jsval" where
  "assignOf U (JArr xs) i jsonKey = (if i < length xs then xs ! i else JUndefined)"
| "assignOf U (JMap m) i jsonKey = (if jsonKey = [] then JStr [] else Map_get m jsonKey)"
| "assignOf U (JObj ps) i jsonKey =
     (if jsonKey = [] then JStr []
      else (case obj_get ps jsonKey of
              JUndefined \<Rightarrow> obj_get (jsonObjOf U ps) jsonKey
            | assign \<Rightarrow> assign))"
| "assignOf U v i jsonKey = (if jsonKey = [] then JStr [] else JUndefined)"

text \<open>Lines 56 to 58: \<^verbatim>\<open>assign instanceof Type ? assign : new Type(registry, assign)\<close>.\<close>

fun newField :: "CodecClass \<Rightarrow> jsval \<Rightarrow> string + Codec" where
  "newField Type (JCodec c b) = (if isInstance Type c then Inr c else construct Type (JCodec c b))"
| "newField Type assign = construct Type assign"

text \<open>Lines 61 to 67: the type shown in the error, \<^verbatim>\<open>Type.name\<close> unless the raw type of a fresh instance can be had.\<close>

definition typeNameOf :: "CodecClass \<Rightarrow> string" where
  "typeNameOf Type =
     (case construct Type JUndefined of
        Inl e \<Rightarrow> name Type
      | Inr c \<Rightarrow> (case toRawType c of None \<Rightarrow> name Type | Some t \<Rightarrow> t))"

text \<open>The loop of lines 25 to 71, from field \<open>i\<close> on; the first failing field ends it.\<close>

fun decodeFields ::
  "Util \<Rightarrow> jsval \<Rightarrow> (string \<times> string) list \<Rightarrow> (string \<times> CodecClass) list \<Rightarrow> nat
     \<Rightarrow> string + (string \<times> Codec) list" where
  "decodeFields U value jsonMap [] i = Inr []"
| "decodeFields U value jsonMap ((key, Type) # rest) i =
     (let jsonKey = jsonKeyOf jsonMap key in
      case newField Type (assignOf U value i jsonKey) of
        Inl message \<Rightarrow>
          Inl (''Struct: failed on '' @ jsonKey @ '': '' @ typeNameOf Type @ '':: '' @ message)
      | Inr c \<Rightarrow>
          (case decodeFields U value jsonMap rest (Suc i) of
             Inl e \<Rightarrow> Inl e
           | Inr raw \<Rightarrow> Inr ((key, c) # raw)))"

fun join :: "string \<Rightarrow> string list \<Rightarrow> string" where
  "join sep [] = []"
| "join sep [x] = x"
| "join sep (x # y # ys) = x @ sep @ join sep (y # ys)"

fun typeofArray :: "jsval \<Rightarrow> bool" where
  "typeofArray (JArr xs) = True"
| "typeofArray v = False"

fun typeofMap :: "jsval \<Rightarrow> bool" where
  "typeofMap (JMap m) = True"
| "typeofMap v = False"

fun arrayLength :: "jsval \<Rightarrow> nat" where
  "arrayLength (JArr xs) = length xs"
| "arrayLength v = 0"

definition decodeStructFromObject ::
  "Util \<Rightarrow> (string \<times> CodecClass) list \<Rightarrow> jsval \<Rightarrow> (string \<times> string) list
     \<Rightarrow> string + ((string \<times> Codec) list \<times> nat)" where
  "decodeStructFromObject U Types value jsonMap =
     (let inputKeys = map fst Types; v = shape value in
      if \<not> (typeofArray v \<or> typeofMap v \<or> isObject value) then
        Inl (''Struct: Cannot decode value '' @ stringify U value @ '' (typeof '' @ typeof value
             @ ''), expected an input object, map or array'')
      else if typeofArray v \<and> arrayLength v \<noteq> length inputKeys then
        Inl (''Struct: Unable to map '' @ stringify U value
             @ '' array to object with known keys '' @ join '', '' inputKeys)
      else
        (case decodeFields U v jsonMap Types 0 of
           Inl e \<Rightarrow> Inl e
         | Inr raw \<Rightarrow> Inr (raw, 0)))"

section \<open>The class Struct\<close>

text \<open>
  An instance: the entries of the \<^verbatim>\<open>Map\<close> it extends, and the fields
  \<^verbatim>\<open>initialU8aLength\<close> (here \<open>initialLength\<close>), \<^verbatim>\<open>#jsonMap\<close> and \<^verbatim>\<open>#Types\<close> (here
  \<open>priv_jsonMap\<close> and \<open>priv_Types\<close>).
\<close>

record Struct =
  entries :: "(string \<times> Codec) list"
  initialLength :: nat
  priv_jsonMap :: "(string \<times> string) list"
  priv_Types :: "(string \<times> CodecClass) list"

text \<open>\<^verbatim>\<open>isHex(value)\<close>: only a primitive string can be hex.\<close>

fun isHexValue :: "Util \<Rightarrow> jsval \<Rightarrow> bool" where
  "isHexValue U (JStr s) = isHex U s"
| "isHexValue U v = False"

fun stringOf :: "jsval \<Rightarrow> jsstring" where
  "stringOf (JStr s) = s"
| "stringOf v = []"

text \<open>The constructor, lines 103 to 119. \<^verbatim>\<open>value || {}\<close> replaces a falsy input by the empty object.\<close>

definition Struct_new ::
  "Util \<Rightarrow> Registry \<Rightarrow> (string \<times> TypeDef) list \<Rightarrow> jsval \<Rightarrow> (string \<times> string) list
     \<Rightarrow> string + Struct" where
  "Struct_new U registry Ts value jsonMap =
     (case mapToTypeMap registry Ts of
        Inl e \<Rightarrow> Inl e
      | Inr typeMap \<Rightarrow>
          (case (if isU8a value then decodeU8a (u8aOf value) typeMap 0
                 else if isHexValue U value then decodeU8a (hexToU8a U (stringOf value)) typeMap 0
                 else (case asStruct value of
                         Some es \<Rightarrow> Inr (es, 0)
                       | None \<Rightarrow>
                           decodeStructFromObject U typeMap
                             (if truthy value then value else JObj []) jsonMap))
           of
             Inl e \<Rightarrow> Inl e
           | Inr (decoded, decodedLength) \<Rightarrow>
               Inr \<lparr>entries = Map_new decoded, initialLength = decodedLength,
                    priv_jsonMap = jsonMap, priv_Types = typeMap\<rparr>))"

text \<open>\<^verbatim>\<open>defKeys\<close>, \<^verbatim>\<open>get\<close>, \<^verbatim>\<open>toArray\<close>, \<^verbatim>\<open>getAtIndex\<close> (\<open>None\<close> is \<^verbatim>\<open>undefined\<close>).\<close>

definition Struct_defKeys :: "Struct \<Rightarrow> string list" where
  "Struct_defKeys s = map fst (priv_Types s)"

definition Struct_get :: "Struct \<Rightarrow> string \<Rightarrow> Codec option" where
  "Struct_get s k = map_of (entries s) k"

definition Struct_values :: "Struct \<Rightarrow> Codec list" where
  "Struct_values s = map snd (entries s)"

definition Struct_toArray :: "Struct \<Rightarrow> Codec list" where
  "Struct_toArray s = Struct_values s"

definition Struct_getAtIndex :: "Struct \<Rightarrow> nat \<Rightarrow> Codec option" where
  "Struct_getAtIndex s index =
     (if index < length (Struct_toArray s) then Some (Struct_toArray s ! index) else None)"

text \<open>\<^verbatim>\<open>isEmpty\<close>, lines 147 to 155: the loop returns at the first field that is not empty.\<close>

fun isEmpty_loop :: "Codec list \<Rightarrow> bool" where
  "isEmpty_loop [] = True"
| "isEmpty_loop (v # vs) = (if \<not> isEmpty v then False else isEmpty_loop vs)"

definition Struct_isEmpty :: "Struct \<Rightarrow> bool" where
  "Struct_isEmpty s = isEmpty_loop (Struct_values s)"

text \<open>\<^verbatim>\<open>encodedLength\<close>, lines 176 to 184.\<close>

definition Struct_encodedLength :: "Struct \<Rightarrow> nat" where
  "Struct_encodedLength s = fold (\<lambda>v acc. acc + encodedLength v) (Struct_values s) 0"

text \<open>
  \<^verbatim>\<open>toU8a\<close>, lines 279 to 295. The argument handed to the child under key \<open>k\<close> is
  \<^verbatim>\<open>!isBare || isBoolean(isBare) ? isBare : isBare[k]\<close>. Every entry holds a codec, so the
  test \<^verbatim>\<open>v && isFunction(v.toU8a)\<close> holds for each of them.
\<close>

definition bareOf :: "BareOpts \<Rightarrow> string \<Rightarrow> BareOpts" where
  "bareOf isBare k =
     (case isBare of
        BareRecord r \<Rightarrow> (case map_of r k of None \<Rightarrow> BareUndefined | Some b \<Rightarrow> BareBool b)
      | _ \<Rightarrow> isBare)"

definition u8aConcat :: "u8a list \<Rightarrow> u8a" where
  "u8aConcat arrays = concat arrays"

definition Struct_toU8a :: "Struct \<Rightarrow> BareOpts \<Rightarrow> u8a" where
  "Struct_toU8a s isBare =
     u8aConcat (fold (\<lambda>(k, v) encoded. encoded @ [toU8a v (bareOf isBare k)]) (entries s) [])"

text \<open>
  The getter \<^verbatim>\<open>Type\<close>, lines 160 to 171: the raw type of a fresh instance of every
  class, \<open>None\<close> when one of them throws.
\<close>

fun rawTypes :: "(string \<times> CodecClass) list \<Rightarrow> (string \<times> string) list option" where
  "rawTypes [] = Some []"
| "rawTypes ((key, Type) # defs) =
     (case construct Type JUndefined of
        Inl e \<Rightarrow> None
      | Inr c \<Rightarrow>
          (case toRawType c of
             None \<Rightarrow> None
           | Some t \<Rightarrow>
               (case rawTypes defs of
                  None \<Rightarrow> None
                | Some result \<Rightarrow> Some ((key, t) # result))))"

definition Struct_Type :: "Struct \<Rightarrow> (string \<times> string) list option" where
  "Struct_Type s = rawTypes (priv_Types s)"

text \<open>
  Modelled from the spec: \<^verbatim>\<open>typesToMap\<close> of \<^verbatim>\<open>../utils\<close>, which is not among the
  sources, taken to be the table of the getter \<^verbatim>\<open>Type\<close>; \<^verbatim>\<open>toRawType\<close>, line 264,
  hands it to \<^verbatim>\<open>stringify\<close>.
\<close>

definition Struct_toRawType :: "Util \<Rightarrow> Struct \<Rightarrow> string option" where
  "Struct_toRawType U s =
     (case Struct_Type s of
        None \<Rightarrow> None
      | Some result \<Rightarrow> Some (stringify U (JObj (map (\<lambda>(k, t). (k, JStr (str t))) result))))"

text \<open>A Struct instance seen as a codec instance, as a parent or a caller holds it.\<close>

definition Struct_asCodec :: "Util \<Rightarrow> Struct \<Rightarrow> Codec" where
  "Struct_asCodec U s =
     Codec ''Struct'' (Struct_toU8a s) (Struct_encodedLength s) (Struct_isEmpty s)
       (Some (initialLength s)) (Struct_toRawType U s) (Some (entries s))"

section \<open>The class Text\<close>

text \<open>
  Modelled from the spec: little-endian bytes of a fixed count, for the compact integer,
  whose code is not among the sources.
\<close>

fun le_bytes :: "nat \<Rightarrow> nat \<Rightarrow> u8a" where
  "le_bytes 0 n = []"
| "le_bytes (Suc k) n = of_nat n # le_bytes k (n div 256)"

text \<open>Modelled from the spec: the bytes of a number, little-endian, as few as it needs.\<close>

fun le_minimal :: "nat \<Rightarrow> u8a" where
  "le_minimal n = (if n = 0 then [] else of_nat n # le_minimal (n div 256))"

declare le_minimal.simps [simp del]

text \<open>Modelled from the spec: the number that little-endian bytes hold.\<close>

fun le_value :: "u8a \<Rightarrow> nat" where
  "le_value [] = 0"
| "le_value (b # bs) = unat b + 256 * le_value bs"

text \<open>
  Modelled from the spec: the compact integer. The low 2 bits of the first byte select the
  size class (1 byte, 2 bytes, 4 bytes, or a length-prefixed big-integer form whose first
  byte holds the number of bytes that follow, less 4); the encoder chooses the smallest
  class; all numbers are little-endian.
\<close>

definition compactToU8a :: "nat \<Rightarrow> u8a" where
  "compactToU8a n =
     (if n < 2 ^ 6 then le_bytes 1 (4 * n)
      else if n < 2 ^ 14 then le_bytes 2 (4 * n + 1)
      else if n < 2 ^ 30 then le_bytes 4 (4 * n + 2)
      else (let bs = le_minimal n in of_nat (4 * (length bs - 4) + 3) # bs))"

text \<open>
  Modelled from the spec: reading a compact integer: the length of the prefix and the
  number it holds; \<open>None\<close> when bytes are missing.
\<close>

definition compactFromU8a :: "u8a \<Rightarrow> (nat \<times> nat) option" where
  "compactFromU8a u =
     (case u of
        [] \<Rightarrow> None
      | b # bs \<Rightarrow>
          (let flag = unat b mod 4 in
           if flag = 0 then Some (1, unat b div 4)
           else if flag = 1 then
             (if length u < 2 then None else Some (2, le_value (take 2 u) div 4))
           else if flag = 2 then
             (if length u < 4 then None else Some (4, le_value (take 4 u) div 4))
           else
             (let n = unat b div 4 + 4 in
              if length bs < n then None else Some (1 + n, le_value (take n bs)))))"

text \<open>Modelled from the spec: the UTF-8 bytes of one character, which the text codec writes.\<close>

definition utf8_char :: "nat \<Rightarrow> u8a" where
  "utf8_char c =
     (if c < 128 then [of_nat c]
      else if c < 2048 then [of_nat (192 + c div 64), of_nat (128 + c mod 64)]
      else if c < 65536 then
        [of_nat (224 + c div 4096), of_nat (128 + c div 64 mod 64), of_nat (128 + c mod 64)]
      else
        [of_nat (240 + c div 262144), of_nat (128 + c div 4096 mod 64),
         of_nat (128 + c div 64 mod 64), of_nat (128 + c mod 64)])"

text \<open>Modelled from the spec: the UTF-8 bytes of a string.\<close>

definition stringToU8a :: "jsstring \<Rightarrow> u8a" where
  "stringToU8a s = concat (map utf8_char s)"

text \<open>Modelled from the spec: the six bits of a UTF-8 continuation byte.\<close>

definition continuation :: "8 word \<Rightarrow> nat option" where
  "continuation b = (if 128 \<le> unat b \<and> unat b < 192 then Some (unat b - 128) else None)"

text \<open>
  Modelled from the spec: reading UTF-8. A byte that does not start a well-formed sequence
  reads as U+FFFD.
\<close>

fun u8aToString :: "u8a \<Rightarrow> jsstring" where
  "u8aToString [] = []"
| "u8aToString [a] = [if unat a < 128 then unat a else 65533]"
| "u8aToString [a, b] =
     (if unat a < 128 then unat a # u8aToString [b]
      else (case (192 \<le> unat a \<and> unat a < 224, continuation b) of
              (True, Some y) \<Rightarrow> [(unat a - 192) * 64 + y]
            | _ \<Rightarrow> 65533 # u8aToString [b]))"
| "u8aToString [a, b, c] =
     (if unat a < 128 then unat a # u8aToString [b, c]
      else (case (192 \<le> unat a \<and> unat a < 224, continuation b) of
              (True, Some y) \<Rightarrow> ((unat a - 192) * 64 + y) # u8aToString [c]
            | _ \<Rightarrow>
              (case (224 \<le> unat a \<and> unat a < 240, continuation b, continuation c) of
                 (True, Some y, Some z) \<Rightarrow> [(unat a - 224) * 4096 + y * 64 + z]
               | _ \<Rightarrow> 65533 # u8aToString [b, c])))"
| "u8aToString (a # b # c # d # r) =
     (if unat a < 128 then unat a # u8aToString (b # c # d # r)
      else (case (192 \<le> unat a \<and> unat a < 224, continuation b) of
              (True, Some y) \<Rightarrow> ((unat a - 192) * 64 + y) # u8aToString (c # d # r)
            | _ \<Rightarrow>
              (case (224 \<le> unat a \<and> unat a < 240, continuation b, continuation c) of
                 (True, Some y, Some z) \<Rightarrow>
                   ((unat a - 224) * 4096 + y * 64 + z) # u8aToString (d # r)
               | _ \<Rightarrow>
                 (case (240 \<le> unat a \<and> unat a < 248, continuation b, continuation c,
                        continuation d) of
                    (True, Some y, Some z, Some w) \<Rightarrow>
                      ((unat a - 240) * 262144 + y * 4096 + z * 64 + w) # u8aToString r
                  | _ \<Rightarrow> 65533 # u8aToString (b # c # d # r)))))"

text \<open>
  Modelled from the spec: the text codec, whose code is not among the sources (its tests
  are). It decodes from a compact-length-prefixed UTF-8 byte run, from a plain string, or
  from any value exposing a string conversion (the parameter \<open>toStr\<close>); an absent or null
  input decodes to the empty text. The result is the text and the number of bytes read.
\<close>

definition Text_decode :: "(jsval \<Rightarrow> jsstring) \<Rightarrow> jsval \<Rightarrow> string + (jsstring \<times> nat)" where
  "Text_decode toStr value =
     (case value of
        JUndefined \<Rightarrow> Inr ([], 0)
      | JNull \<Rightarrow> Inr ([], 0)
      | JStr s \<Rightarrow> Inr (s, 0)
      | _ \<Rightarrow>
          if isU8a value then
            (case compactFromU8a (u8aOf value) of
               None \<Rightarrow> Inl ''Text: not enough bytes for the length prefix''
             | Some (offset, len) \<Rightarrow>
                 if length (u8aOf value) < offset + len then
                   Inl ''Text: not enough bytes for the declared length''
                 else Inr (u8aToString (take len (drop offset (u8aOf value))), offset + len))
          else Inr (toStr value, 0))"

text \<open>
  Modelled from the spec: the text codec encodes by compact-length-prefixing the UTF-8
  bytes; a bare encoding (line 277 of Struct.ts: none of the type-specific prefixes) is the
  UTF-8 bytes alone.
\<close>

definition Text_toU8a :: "jsstring \<Rightarrow> BareOpts \<Rightarrow> u8a" where
  "Text_toU8a t isBare =
     (let encoded = stringToU8a t in
      if isBare = BareBool True then encoded else compactToU8a (length encoded) @ encoded)"

text \<open>Modelled from the spec: the byte length counts the prefix and the UTF-8 bytes.\<close>

definition Text_encodedLength :: "jsstring \<Rightarrow> nat" where
  "Text_encodedLength t =
     length (compactToU8a (length (stringToU8a t))) + length (stringToU8a t)"

text \<open>Modelled from the spec: the logical length counts characters.\<close>

definition Text_length :: "jsstring \<Rightarrow> nat" where
  "Text_length t = length t"

text \<open>Modelled from the spec: a text is empty when it is the default, the empty string.\<close>

definition Text_isEmpty :: "jsstring \<Rightarrow> bool" where
  "Text_isEmpty t = (t = [])"

text \<open>
  Modelled from the spec: a text as a codec instance, with the number of bytes it was
  decoded from.
\<close>

definition Text_codec :: "jsstring \<Rightarrow> nat \<Rightarrow> Codec" where
  "Text_codec t initial =
     Codec ''Text'' (Text_toU8a t) (Text_encodedLength t) (Text_isEmpty t) (Some initial)
       (Some ''Text'') None"

text \<open>Modelled from the spec: the constructor of the text codec.\<close>

definition Text_new :: "(jsval \<Rightarrow> jsstring) \<Rightarrow> jsval \<Rightarrow> string + Codec" where
  "Text_new toStr value =
     (case Text_decode toStr value of
        Inl e \<Rightarrow> Inl e
      | Inr (t, initial) \<Rightarrow> Inr (Text_codec t initial))"

text \<open>Modelled from the spec: the class of the text codec.\<close>

definition Text_class :: "(jsval \<Rightarrow> jsstring) \<Rightarrow> CodecClass" where
  "Text_class toStr =
     \<lparr>name = ''Text'', construct = Text_new toStr, isInstance = (\<lambda>c. className c = ''Text'')\<rparr>"

section \<open>An environment for running examples\<close>

text \<open>
  Stand-ins for the library functions, enough to run the examples below: a camel-case
  conversion for words joined by the separators \<^verbatim>\<open>-_., \<close>, a \<^verbatim>\<open>stringify\<close> that shows
  the kind of the value only, and the hex functions on \<^verbatim>\<open>0x\<close> strings of even length.
\<close>

definition isSeparator :: "char \<Rightarrow> bool" where
  "isSeparator c = (c \<in> set ''-_., '')"

fun splitWords :: "string \<Rightarrow> string list" where
  "splitWords [] = [[]]"
| "splitWords (c # cs) =
     (if isSeparator c then [] # splitWords cs
      else (case splitWords cs of [] \<Rightarrow> [[c]] | w # ws \<Rightarrow> (c # w) # ws))"

definition toUpper :: "char \<Rightarrow> char" where
  "toUpper c =
     (if 97 \<le> (of_char c :: nat) \<and> (of_char c :: nat) \<le> 122
      then char_of ((of_char c :: nat) - 32) else c)"

definition toLower :: "char \<Rightarrow> char" where
  "toLower c =
     (if 65 \<le> (of_char c :: nat) \<and> (of_char c :: nat) \<le> 90
      then char_of ((of_char c :: nat) + 32) else c)"

fun mapFirst :: "(char \<Rightarrow> char) \<Rightarrow> string \<Rightarrow> string" where
  "mapFirst f [] = []"
| "mapFirst f (c # cs) = f c # cs"

definition camelCase0 :: "string \<Rightarrow> string" where
  "camelCase0 s =
     (case filter (\<lambda>w. w \<noteq> []) (splitWords s) of
        [] \<Rightarrow> []
      | w # ws \<Rightarrow> mapFirst toLower w @ concat (map (mapFirst toUpper) ws))"

definition hexDigit :: "nat \<Rightarrow> nat option" where
  "hexDigit d =
     (if 48 \<le> d \<and> d \<le> 57 then Some (d - 48)
      else if 97 \<le> d \<and> d \<le> 102 then Some (d - 87)
      else if 65 \<le> d \<and> d \<le> 70 then Some (d - 55)
      else None)"

definition isHex0 :: "jsstring \<Rightarrow> bool" where
  "isHex0 s =
     (case s of
        a # b # r \<Rightarrow> a = 48 \<and> b = 120 \<and> list_all (\<lambda>d. hexDigit d \<noteq> None) r \<and> even (length r)
      | _ \<Rightarrow> False)"

fun hexPairs :: "nat list \<Rightarrow> u8a" where
  "hexPairs (a # b # r) =
     (case (hexDigit a, hexDigit b) of
        (Some x, Some y) \<Rightarrow> of_nat (16 * x + y) # hexPairs r
      | _ \<Rightarrow> hexPairs r)"
| "hexPairs r = []"

definition hexToU8a0 :: "jsstring \<Rightarrow> u8a" where
  "hexToU8a0 s = hexPairs (drop 2 s)"

definition U0 :: Util where
  "U0 = \<lparr>stringCamelCase = camelCase0, stringify = (\<lambda>v. ''<'' @ typeof v @ ''>''),
         isHex = isHex0, hexToU8a = hexToU8a0\<rparr>"

definition toStr0 :: "jsval \<Rightarrow> jsstring" where
  "toStr0 v =
     (case v of
        JBool b \<Rightarrow> str (if b then ''true'' else ''false'')
      | _ \<Rightarrow> str ''[object Object]'')"

definition Text0 :: CodecClass where
  "Text0 = Text_class toStr0"

definition R0 :: Registry where
  "R0 = \<lparr>createClass =
           (\<lambda>n. if n = ''Text'' then Inr Text0 else Inl (''Cannot resolve type '' @ n))\<rparr>"

text \<open>
  A struct type with two text fields, one given by name and one by class, and two of its
  instances: \<open>s0\<close> as built from the object \<^verbatim>\<open>{b: <U+4E2D U+6587>, a: 'yz'}\<close>, and
  \<open>sEmpty\<close> as built from no value.
\<close>

definition Ts0 :: "(string \<times> TypeDef) list" where
  "Ts0 = [(''a'', TypeName ''Text''), (''b'', TypeClass Text0)]"

definition s0 :: Struct where
  "s0 = \<lparr>entries = [(''a'', Text_codec [121, 122] 0), (''b'', Text_codec [20013, 25991] 0)],
          initialLength = 0, priv_jsonMap = [], priv_Types = [(''a'', Text0), (''b'', Text0)]\<rparr>"

definition sEmpty :: Struct where
  "sEmpty = \<lparr>entries = [(''a'', Text_codec [] 0), (''b'', Text_codec [] 0)],
              initialLength = 0, priv_jsonMap = [], priv_Types = [(''a'', Text0), (''b'', Text0)]\<rparr>"

text \<open>
  A Struct instance as a value handed to a constructor. The map it extends is shown with
  its children as objects without enumerable properties.
\<close>

definition Struct_asValue :: "Util \<Rightarrow> Struct \<Rightarrow> jsval" where
  "Struct_asValue U s =
     JCodec (Struct_asCodec U s)
       (JMap (map (\<lambda>(k, c). (JStr (str k), JCodec c (JObj []))) (entries s)))"

text \<open>The struct type of \<open>s0\<close> with its two fields declared in the other order.\<close>

definition Ts1 :: "(string \<times> TypeDef) list" where
  "Ts1 = [(''b'', TypeName ''Text''), (''a'', TypeName ''Text'')]"

text \<open>What the constructor builds for the reordered type from the instance \<open>s0\<close>.\<close>

definition sSwapped :: Struct where
  "sSwapped = \<lparr>entries = entries s0, initialLength = 0, priv_jsonMap = [],
                priv_Types = [(''b'', Text0), (''a'', Text0)]\<rparr>"

text \<open>The instance built from the array \<^verbatim>\<open>['q', null]\<close>.\<close>

definition sPair :: Struct where
  "sPair = \<lparr>entries = [(''a'', Text_codec [113] 0), (''b'', Text_codec [] 0)],
              initialLength = 0, priv_jsonMap = [], priv_Types = [(''a'', Text0), (''b'', Text0)]\<rparr>"




section \<open>Properties of the containers\<close>

lemma Map_set_keys:
  "map fst (Map_set m k v) = (if k \<in> set (map fst m) then map fst m else map fst m @ [k])"
proof (induction m)
  case Nil
  then show ?case by simp
next
  case (Cons p m)
  obtain k' v' where p: "p = (k', v')" by (cases p)
  show ?case using Cons.IH by (cases "k' = k") (simp_all add: p)
qed

lemma Map_set_fresh: "k \<notin> set (map fst m) \<Longrightarrow> Map_set m k v = m @ [(k, v)]"
  by (induction m) auto

lemma fold_Map_set_fresh:
  "distinct (map fst (m @ xs)) \<Longrightarrow> fold (\<lambda>(k, v) m. Map_set m k v) xs m = m @ xs"
proof (induction xs arbitrary: m)
  case Nil
  then show ?case by simp
next
  case (Cons x xs)
  obtain k v where x: "x = (k, v)" by (cases x)
  from Cons.prems have fresh: "k \<notin> set (map fst m)" by (auto simp: x)
  from Cons.prems have "distinct (map fst ((m @ [(k, v)]) @ xs))" by (auto simp: x)
  from Cons.IH [OF this] show ?case by (simp add: x Map_set_fresh [OF fresh])
qed

lemma Map_new_id: "distinct (map fst xs) \<Longrightarrow> Map_new xs = xs"
  using fold_Map_set_fresh [of "[]" xs] by (simp add: Map_new_def)

lemma fold_Map_set_distinct:
  "distinct (map fst m) \<Longrightarrow> distinct (map fst (fold (\<lambda>(k, v) m. Map_set m k v) xs m))"
  by (induction xs arbitrary: m) (auto simp: Map_set_keys)

lemma Map_new_distinct: "distinct (map fst (Map_new xs))"
  by (simp add: Map_new_def fold_Map_set_distinct)

lemma map_of_nth_distinct:
  "distinct (map fst es) \<Longrightarrow> i < length es \<Longrightarrow> map_of es (fst (es ! i)) = Some (snd (es ! i))"
  by (metis map_of_eq_Some_iff nth_mem prod.collapse)

section \<open>Properties of the decoders\<close>

lemma mapToTypeMap_keys: "mapToTypeMap registry Ts = Inr tm \<Longrightarrow> map fst tm = map fst Ts"
  by (induction Ts arbitrary: tm) (auto split: sum.splits)

lemma decodeFields_keys: "decodeFields U v jm tm i = Inr raw \<Longrightarrow> map fst raw = map fst tm"
  by (induction tm arbitrary: raw i) (auto simp: Let_def split: sum.splits)

lemma decodeU8a_keys: "decodeU8a u8a tm off = Inr (res, n) \<Longrightarrow> map fst res = map fst tm"
  by (induction tm arbitrary: res off n) (auto split: sum.splits prod.splits)

lemma decodeFields_nth:
  "decodeFields U v jm tm i = Inr raw \<Longrightarrow> j < length tm \<Longrightarrow>
     newField (snd (tm ! j)) (assignOf U v (i + j) (jsonKeyOf jm (fst (tm ! j)))) = Inr (snd (raw ! j))"
proof (induction tm arbitrary: raw i j)
  case Nil
  then show ?case by simp
next
  case (Cons p tm)
  obtain key T where p: "p = (key, T)" by (cases p)
  from Cons.prems(1) obtain c raw' where
    c: "newField T (assignOf U v i (jsonKeyOf jm key)) = Inr c"
    and raw': "decodeFields U v jm tm (Suc i) = Inr raw'"
    and raw: "raw = (key, c) # raw'"
    by (auto simp: p Let_def split: sum.splits)
  show ?case
  proof (cases j)
    case 0
    then show ?thesis by (simp add: p c raw)
  next
    case (Suc j')
    with Cons.prems(2) have "j' < length tm" by simp
    from Cons.IH [OF raw' this] show ?thesis by (simp add: Suc raw)
  qed
qed

lemma decodeFields_succeeds:
  "(\<forall>j < length tm. \<exists>c. newField (snd (tm ! j))
        (assignOf U v (i + j) (jsonKeyOf jm (fst (tm ! j)))) = Inr c)
   \<Longrightarrow> \<exists>raw. decodeFields U v jm tm i = Inr raw"
proof (induction tm arbitrary: i)
  case Nil
  then show ?case by simp
next
  case (Cons p tm)
  obtain key T where p: "p = (key, T)" by (cases p)
  from Cons.prems [rule_format, of 0] obtain c where
    c: "newField T (assignOf U v i (jsonKeyOf jm key)) = Inr c"
    by (auto simp: p)
  have "\<forall>j < length tm. \<exists>c. newField (snd (tm ! j))
        (assignOf U v (Suc i + j) (jsonKeyOf jm (fst (tm ! j)))) = Inr c"
  proof (intro allI impI)
    fix j assume "j < length tm"
    then have "Suc j < length (p # tm)" by simp
    from Cons.prems [rule_format, OF this] show "\<exists>c. newField (snd (tm ! j))
        (assignOf U v (Suc i + j) (jsonKeyOf jm (fst (tm ! j)))) = Inr c"
      by simp
  qed
  from Cons.IH [OF this] obtain raw where "decodeFields U v jm tm (Suc i) = Inr raw" ..
  then show ?case by (simp add: p c Let_def)
qed


lemma decodeStructFromObject_Inr:
  "decodeStructFromObject U tm value jm = Inr (raw, n) \<Longrightarrow>
     n = 0 \<and> decodeFields U (shape value) jm tm 0 = Inr raw"
  by (auto simp: decodeStructFromObject_def Let_def split: if_splits sum.splits)

lemma decodeStructFromObject_keys:
  "decodeStructFromObject U tm value jm = Inr (raw, n) \<Longrightarrow> map fst raw = map fst tm"
  by (auto dest!: decodeStructFromObject_Inr decodeFields_keys)

text \<open>What a successful construction did, by the branch of line 105 to 111 it took.\<close>

lemma Struct_new_Inr:
  assumes "Struct_new U registry Ts value jm = Inr s"
  obtains tm decoded n where
    "mapToTypeMap registry Ts = Inr tm"
    "s = \<lparr>entries = Map_new decoded, initialLength = n, priv_jsonMap = jm, priv_Types = tm\<rparr>"
    "(isU8a value \<and> decodeU8a (u8aOf value) tm 0 = Inr (decoded, n))
     \<or> (\<not> isU8a value \<and> isHexValue U value
         \<and> decodeU8a (hexToU8a U (stringOf value)) tm 0 = Inr (decoded, n))
     \<or> (\<not> isU8a value \<and> \<not> isHexValue U value \<and> asStruct value = Some decoded \<and> n = 0)
     \<or> (\<not> isU8a value \<and> \<not> isHexValue U value \<and> asStruct value = None
         \<and> decodeStructFromObject U tm (if truthy value then value else JObj []) jm
             = Inr (decoded, n))"
  using assms unfolding Struct_new_def
  by (auto split: sum.splits if_splits option.splits prod.splits simp del: isU8a.simps u8aOf.simps)

lemma Struct_new_keys:
  assumes new: "Struct_new U registry Ts value jm = Inr s"
    and keys: "distinct (map fst Ts)"
    and same: "\<forall>es. asStruct value = Some es \<longrightarrow> map fst es = map fst Ts"
  shows "map fst (entries s) = map fst Ts \<and> map fst (priv_Types s) = map fst Ts"
proof -
  from new obtain tm decoded n where
    tm: "mapToTypeMap registry Ts = Inr tm"
    and s: "s = \<lparr>entries = Map_new decoded, initialLength = n, priv_jsonMap = jm, priv_Types = tm\<rparr>"
    and branch: "(isU8a value \<and> decodeU8a (u8aOf value) tm 0 = Inr (decoded, n))
     \<or> (\<not> isU8a value \<and> isHexValue U value
         \<and> decodeU8a (hexToU8a U (stringOf value)) tm 0 = Inr (decoded, n))
     \<or> (\<not> isU8a value \<and> \<not> isHexValue U value \<and> asStruct value = Some decoded \<and> n = 0)
     \<or> (\<not> isU8a value \<and> \<not> isHexValue U value \<and> asStruct value = None
         \<and> decodeStructFromObject U tm (if truthy value then value else JObj []) jm
             = Inr (decoded, n))"
    by (rule Struct_new_Inr)
  have tmk: "map fst tm = map fst Ts" by (rule mapToTypeMap_keys [OF tm])
  from branch have "map fst decoded = map fst Ts"
    using same tmk decodeU8a_keys decodeStructFromObject_keys by metis
  with keys have "Map_new decoded = decoded" by (simp add: Map_new_id)
  with \<open>map fst decoded = map fst Ts\<close> tmk show ?thesis by (simp add: s)
qed

text \<open>The loop sees the input through the assigned values only.\<close>

lemma decodeFields_cong:
  "(\<And>i k. assignOf U v i k = assignOf U v' i k) \<Longrightarrow>
     decodeFields U v jm tm i = decodeFields U v' jm tm i"
  by (induction tm arbitrary: i) (auto simp: Let_def split: sum.splits)

section \<open>Properties of the methods\<close>

lemma fold_push:
  "fold (\<lambda>(k, v) encoded. encoded @ [f k v]) es acc = acc @ map (\<lambda>(k, v). f k v) es"
  by (induction es arbitrary: acc) auto

lemma Struct_toU8a_concat:
  "Struct_toU8a s isBare = concat (map (\<lambda>(k, v). toU8a v (bareOf isBare k)) (entries s))"
  by (simp add: Struct_toU8a_def u8aConcat_def fold_push)

lemma fold_encodedLength:
  "fold (\<lambda>v acc. acc + encodedLength v) vs n = n + sum_list (map encodedLength vs)"
  by (induction vs arbitrary: n) auto

lemma isEmpty_loop_all: "isEmpty_loop vs = (\<forall>v \<in> set vs. isEmpty v)"
  by (induction vs) auto

lemma bareOf_undefined: "bareOf BareUndefined k = BareUndefined"
  by (simp add: bareOf_def)


lemma shape_array_facts:
  assumes "shape value = JArr xs"
  shows "\<not> isU8a value \<and> \<not> isHexValue U value \<and> truthy value"
  using assms by (cases "value") simp_all

text \<open>Field \<open>i\<close> of an instance built from an object, a map, an array or no value.\<close>

lemma Struct_new_entries_nth:
  assumes new: "Struct_new U registry Ts value jm = Inr s"
    and keys: "distinct (map fst Ts)"
    and nostruct: "asStruct value = None"
    and plain: "\<not> isU8a value" "\<not> isHexValue U value"
    and i: "i < length Ts"
  shows "fst (entries s ! i) = fst (Ts ! i)
    \<and> newField (snd (priv_Types s ! i))
         (assignOf U (shape (if truthy value then value else JObj [])) i
            (jsonKeyOf jm (fst (Ts ! i)))) = Inr (snd (entries s ! i))"
proof -
  from new obtain tm decoded n where
    tm: "mapToTypeMap registry Ts = Inr tm"
    and s: "s = \<lparr>entries = Map_new decoded, initialLength = n, priv_jsonMap = jm, priv_Types = tm\<rparr>"
    and branch: "(isU8a value \<and> decodeU8a (u8aOf value) tm 0 = Inr (decoded, n))
     \<or> (\<not> isU8a value \<and> isHexValue U value
         \<and> decodeU8a (hexToU8a U (stringOf value)) tm 0 = Inr (decoded, n))
     \<or> (\<not> isU8a value \<and> \<not> isHexValue U value \<and> asStruct value = Some decoded \<and> n = 0)
     \<or> (\<not> isU8a value \<and> \<not> isHexValue U value \<and> asStruct value = None
         \<and> decodeStructFromObject U tm (if truthy value then value else JObj []) jm
             = Inr (decoded, n))"
    by (rule Struct_new_Inr)
  from branch nostruct plain
  have dec: "decodeStructFromObject U tm (if truthy value then value else JObj []) jm
               = Inr (decoded, n)"
    by auto
  then have fields: "decodeFields U (shape (if truthy value then value else JObj [])) jm tm 0
                       = Inr decoded"
    by (auto dest: decodeStructFromObject_Inr)
  have tmk: "map fst tm = map fst Ts" by (rule mapToTypeMap_keys [OF tm])
  have dk: "map fst decoded = map fst Ts" using decodeFields_keys [OF fields] tmk by simp
  with keys have id: "Map_new decoded = decoded" by (simp add: Map_new_id)
  have len: "i < length tm" "i < length decoded"
    using i tmk dk by (metis length_map)+
  have k: "fst (decoded ! i) = fst (Ts ! i)"
    using dk len i by (metis nth_map)
  have kt: "fst (tm ! i) = fst (Ts ! i)"
    using tmk len i by (metis nth_map)
  from decodeFields_nth [OF fields len(1)] k kt show ?thesis
    by (simp add: s id)
qed





text \<open>The camel-case object holds, under a key, the last entry of the input that translates to it.\<close>

lemma map_of_Map_set: "map_of (Map_set m k v) = (map_of m)(k \<mapsto> v)"
  by (induction m) auto

lemma map_of_fold_Map_set:
  "map_of (fold (\<lambda>(k, v) obj. Map_set obj (c k) v) ps acc)
     = map_of acc ++ map_of (rev (map (\<lambda>(k, v). (c k, v)) ps))"
proof (induction ps arbitrary: acc)
  case Nil
  then show ?case by simp
next
  case (Cons p ps)
  obtain k v where p: "p = (k, v)" by (cases p)
  show ?case
    by (rule ext) (simp add: p Cons.IH map_of_Map_set map_add_def split: option.splits)
qed

lemma jsonObjOf_lookup:
  "obj_get (jsonObjOf U ps) k
     = (case map_of (rev (map (\<lambda>(k, v). (stringCamelCase U k, v)) ps)) k of
          None \<Rightarrow> JUndefined
        | Some v \<Rightarrow> v)"
  by (simp add: obj_get_def jsonObjOf_def map_of_fold_Map_set)


lemma Struct_get_nth:
  assumes "distinct (map fst (entries s))" and "i < length (entries s)"
  shows "Struct_get s (fst (entries s ! i)) = Some (snd (entries s ! i))"
  using assms by (simp add: Struct_get_def map_of_nth_distinct)

section \<open>The examples are what the constructor builds\<close>

lemma s0_built:
  "Struct_new U0 R0 Ts0 (JObj [(''b'', JStr [20013, 25991]), (''a'', JStr [121, 122])]) [] = Inr s0"
  by (simp add: Struct_new_def Ts0_def R0_def typeToConstructor_def decodeStructFromObject_def
      isObject_def jsonKeyOf_def obj_get_def Text0_def Text_class_def Text_new_def Text_decode_def
      Map_new_def s0_def U0_def)

lemma sEmpty_built: "Struct_new U0 R0 Ts0 JUndefined [] = Inr sEmpty"
  by (simp add: Struct_new_def Ts0_def R0_def typeToConstructor_def decodeStructFromObject_def
      isObject_def jsonKeyOf_def obj_get_def jsonObjOf_def Text0_def Text_class_def Text_new_def
      Text_decode_def Map_new_def sEmpty_def U0_def)

text \<open>The text codec reports as its byte length the length of what it encodes.\<close>

lemma Text_codec_length:
  "encodedLength (Text_codec t n) = length (toU8a (Text_codec t n) BareUndefined)"
  by (simp add: Text_codec_def Text_encodedLength_def Text_toU8a_def Let_def)

lemma sPair_built: "Struct_new U0 R0 Ts0 (JArr [JStr [113], JNull]) [] = Inr sPair"
  by (simp add: Struct_new_def Ts0_def R0_def typeToConstructor_def decodeStructFromObject_def
      isObject_def jsonKeyOf_def Text0_def Text_class_def Text_new_def Text_decode_def
      Map_new_def sPair_def U0_def)




section \<open>Field order of the encoding\<close>



text \<open>
  Two objects with the same entries in different key orders build the same instance, and
  so the same encoding, as long as no two keys of the input have the same camel-case form
  (of two such keys, the later one is the one that the fallback of lines 39 to 51 finds).
\<close>

lemma Struct_new_object_key_order:
  assumes d: "distinct (map fst ps)" and d': "distinct (map fst ps')"
    and same: "set ps = set ps'"
    and inj: "inj_on (stringCamelCase U) (fst ` set ps)"
  shows "Struct_new U registry Ts (JObj ps') jm = Struct_new U registry Ts (JObj ps) jm"
proof -
  let ?f = "\<lambda>(k, v). (stringCamelCase U k, v :: jsval)"
  have direct: "map_of ps = map_of ps'"
    using d d' same by (simp add: map_of_inject_set)
  have keys: "map fst (map ?f qs) = map (stringCamelCase U) (map fst qs)" for qs
    by (induction qs) auto
  have "distinct (map fst (rev (map ?f ps)))"
    using d inj by (simp add: rev_map [symmetric] keys distinct_map del: map_map)
  moreover have "distinct (map fst (rev (map ?f ps')))"
    using d' inj same by (simp add: rev_map [symmetric] keys distinct_map del: map_map)
  moreover have "set (rev (map ?f ps)) = set (rev (map ?f ps'))"
    using same by simp
  ultimately have camel: "map_of (rev (map ?f ps)) = map_of (rev (map ?f ps'))"
    by (simp only: map_of_inject_set)
  have fallback: "obj_get (jsonObjOf U ps') k = obj_get (jsonObjOf U ps) k" for k
    by (simp add: jsonObjOf_lookup camel)
  have "assignOf U (JObj ps') i k = assignOf U (JObj ps) i k" for i k
    by (simp add: direct obj_get_def [of ps] obj_get_def [of "ps'"] fallback cong: jsval.case_cong)
  then have "decodeFields U (JObj ps') jm tm 0 = decodeFields U (JObj ps) jm tm 0" for tm
    by (rule decodeFields_cong)
  then have "decodeStructFromObject U tm (JObj ps') jm = decodeStructFromObject U tm (JObj ps) jm"
    for tm
    by (simp add: decodeStructFromObject_def isObject_def Let_def)
  then show ?thesis
    by (cases "mapToTypeMap registry Ts") (simp_all add: Struct_new_def)
qed

section \<open>Encoded length\<close>

text \<open>
  C2. For every Struct instance, \<^verbatim>\<open>encodedLength\<close> is the sum of the \<^verbatim>\<open>encodedLength\<close>
  of its fields; and it is the byte length of the array that \<^verbatim>\<open>toU8a()\<close> returns, given
  that each field, a codec of some other class, reports as its \<^verbatim>\<open>encodedLength\<close> the
  length of its own \<^verbatim>\<open>toU8a()\<close>.
\<close>

theorem Struct_encodedLength_sum:
  "Struct_encodedLength s = sum_list (map encodedLength (Struct_toArray s))
   \<and> ((\<forall>v \<in> set (Struct_toArray s). encodedLength v = length (toU8a v BareUndefined))
        \<longrightarrow> Struct_encodedLength s = length (Struct_toU8a s BareUndefined))"
proof (intro conjI impI)
  show sum: "Struct_encodedLength s = sum_list (map encodedLength (Struct_toArray s))"
    by (simp add: Struct_encodedLength_def Struct_toArray_def fold_encodedLength)
  assume contract: "\<forall>v \<in> set (Struct_toArray s). encodedLength v = length (toU8a v BareUndefined)"
  have "length (Struct_toU8a s BareUndefined)
          = sum_list (map (\<lambda>(k, v). length (toU8a v BareUndefined)) (entries s))"
    by (simp add: Struct_toU8a_concat bareOf_undefined length_concat comp_def case_prod_unfold)
  also have "\<dots> = sum_list (map (\<lambda>(k, v). encodedLength v) (entries s))"
    using contract
    by (intro arg_cong [where f = sum_list] map_cong)
       (auto simp: Struct_toArray_def Struct_values_def)
  also have "\<dots> = sum_list (map encodedLength (Struct_toArray s))"
    by (simp add: Struct_toArray_def Struct_values_def comp_def case_prod_unfold)
  finally show "Struct_encodedLength s = length (Struct_toU8a s BareUndefined)"
    using sum by simp
qed

theorem Struct_encodedLength_sum_witness:
  "list_all (\<lambda>v. encodedLength v = length (toU8a v BareUndefined)) (Struct_toArray s0)
   \<and> Struct_encodedLength s0 = length (Struct_toU8a s0 BareUndefined)
   \<and> Struct_encodedLength s0 = 10"
proof -
  have contract: "\<forall>v \<in> set (Struct_toArray s0). encodedLength v = length (toU8a v BareUndefined)"
    by (simp add: s0_def Struct_toArray_def Struct_values_def Text_codec_length)
  have ten: "sum_list (map encodedLength (Struct_toArray s0)) = 10"
    by (simp add: s0_def Struct_toArray_def Struct_values_def Text_codec_def Text_encodedLength_def
        stringToU8a_def utf8_char_def compactToU8a_def)
  from Struct_encodedLength_sum [of s0] contract ten show ?thesis by (simp add: list_all_iff)
qed

section \<open>Arrays\<close>

text \<open>
  C3. For every struct type with \<open>n\<close> declared fields, constructing it from an
  array-shaped input whose length differs from \<open>n\<close> fails with a construction error
  (the error of an unresolved type name, or else the error of line 21); an array of
  exactly length \<open>n\<close> is assigned positionally: field \<open>i\<close> has the \<open>i\<close>-th declared
  key and is made from the \<open>i\<close>-th element.
\<close>

theorem Struct_new_array:
  assumes arr: "shape value = JArr xs"
    and nostruct: "asStruct value = None"
  shows "(length xs \<noteq> length Ts \<longrightarrow>
            Struct_new U registry Ts value jm
              = Inl (case mapToTypeMap registry Ts of
                       Inl e \<Rightarrow> e
                     | Inr tm \<Rightarrow> ''Struct: Unable to map '' @ stringify U value
                          @ '' array to object with known keys '' @ join '', '' (map fst Ts)))
    \<and> (length xs = length Ts \<and> distinct (map fst Ts)
          \<and> Struct_new U registry Ts value jm = Inr s \<longrightarrow>
        (\<forall>i < length Ts. fst (entries s ! i) = fst (Ts ! i)
            \<and> newField (snd (priv_Types s ! i)) (xs ! i) = Inr (snd (entries s ! i))))"
proof (intro conjI impI)
  from shape_array_facts [OF arr, of U]
  have plain: "\<not> isU8a value" "\<not> isHexValue U value" "truthy value" by simp_all
  assume differs: "length xs \<noteq> length Ts"
  show "Struct_new U registry Ts value jm
              = Inl (case mapToTypeMap registry Ts of
                       Inl e \<Rightarrow> e
                     | Inr tm \<Rightarrow> ''Struct: Unable to map '' @ stringify U value
                          @ '' array to object with known keys '' @ join '', '' (map fst Ts))"
  proof (cases "mapToTypeMap registry Ts")
    case (Inl e)
    then show ?thesis by (simp add: Struct_new_def)
  next
    case (Inr tm)
    from mapToTypeMap_keys [OF Inr] have tmk: "map fst tm = map fst Ts" .
    show ?thesis
      using differs plain nostruct arr Inr tmk unfolding Struct_new_def decodeStructFromObject_def
      by (simp add: Let_def del: isU8a.simps)
  qed
next
  from shape_array_facts [OF arr, of U]
  have plain: "\<not> isU8a value" "\<not> isHexValue U value" "truthy value" by simp_all
  assume ok: "length xs = length Ts \<and> distinct (map fst Ts)
          \<and> Struct_new U registry Ts value jm = Inr s"
  show "\<forall>i < length Ts. fst (entries s ! i) = fst (Ts ! i)
            \<and> newField (snd (priv_Types s ! i)) (xs ! i) = Inr (snd (entries s ! i))"
  proof (intro allI impI)
    fix i assume i: "i < length Ts"
    from ok have new: "Struct_new U registry Ts value jm = Inr s"
      and keys: "distinct (map fst Ts)" and len: "length xs = length Ts" by simp_all
    from Struct_new_entries_nth [OF new keys nostruct plain(1) plain(2) i] plain(3) arr i len
    show "fst (entries s ! i) = fst (Ts ! i)
            \<and> newField (snd (priv_Types s ! i)) (xs ! i) = Inr (snd (entries s ! i))"
      by simp
  qed
qed

theorem Struct_new_array_witness:
  "Struct_new U0 R0 Ts0 (JArr [JStr [113]]) []
     = Inl ''Struct: Unable to map <object> array to object with known keys a, b''
   \<and> Struct_new U0 R0 Ts0 (JArr [JStr [113], JNull]) [] = Inr sPair
   \<and> newField Text0 (JStr [113]) = Inr (snd (entries sPair ! 0))
   \<and> newField Text0 JNull = Inr (snd (entries sPair ! 1))"
proof -
  have n: "asStruct (JArr [JStr [113]]) = None" "asStruct (JArr [JStr [113], JNull]) = None"
    by simp_all
  have tm: "mapToTypeMap R0 Ts0 = Inr [(''a'', Text0), (''b'', Text0)]"
    by (simp add: Ts0_def R0_def typeToConstructor_def)
  have d: "distinct (map fst Ts0)" "length Ts0 = 2" by (simp_all add: Ts0_def)
  have short: "Struct_new U0 R0 Ts0 (JArr [JStr [113]]) []
     = Inl ''Struct: Unable to map <object> array to object with known keys a, b''"
    using Struct_new_array [of "JArr [JStr [113]]" "[JStr [113]]" Ts0 U0 R0 "[]" sPair] n(1) tm d
    by (simp add: U0_def Ts0_def)
  have all: "\<forall>i < length Ts0. fst (entries sPair ! i) = fst (Ts0 ! i)
            \<and> newField (snd (priv_Types sPair ! i)) ([JStr [113], JNull] ! i)
                = Inr (snd (entries sPair ! i))"
    using Struct_new_array [of "JArr [JStr [113], JNull]" "[JStr [113], JNull]" Ts0 U0 R0 "[]" sPair]
      n(2) d sPair_built
    by simp
  from all [rule_format, of 0] all [rule_format, of 1]
  have "newField (snd (priv_Types sPair ! 0)) ([JStr [113], JNull] ! 0)
                = Inr (snd (entries sPair ! 0))
       \<and> newField (snd (priv_Types sPair ! 1)) ([JStr [113], JNull] ! 1)
                = Inr (snd (entries sPair ! 1))"
    using d(2) by simp
  then have "newField Text0 (JStr [113]) = Inr (snd (entries sPair ! 0))
   \<and> newField Text0 JNull = Inr (snd (entries sPair ! 1))"
    by (simp add: sPair_def)
  with short sPair_built show ?thesis by simp
qed

section \<open>Errors of the children\<close>



section \<open>Construction from an instance\<close>

text \<open>
  C5. For every already-constructed Struct instance \<open>s\<close>, constructing a new Struct of the
  same shape from \<open>s\<close> yields \<open>s\<close> again, with the recorded initial length 0 of a value
  that was not decoded from bytes; and whatever the declared types, the new instance holds
  the entries of \<open>s\<close>, the same child instances under the same keys, so that no child is
  constructed, decoded or encoded: the only possible error is an unresolved type name.
\<close>

theorem Struct_new_from_Struct:
  assumes built: "Struct_new U registry Ts v0 jm = Inr s"
    and inst: "asStruct value = Some (entries s)"
    and map: "\<not> isU8a value"
  shows "Struct_new U registry Ts value jm = Inr (s\<lparr>initialLength := 0\<rparr>)
    \<and> (case Struct_new U registry Ts' value jm' of
          Inl e \<Rightarrow> mapToTypeMap registry Ts' = Inl e
        | Inr s' \<Rightarrow> entries s' = entries s \<and> Struct_toArray s' = Struct_toArray s
                     \<and> Struct_toU8a s' isBare = Struct_toU8a s isBare)"
proof -
  from built obtain tm decoded n where
    tm: "mapToTypeMap registry Ts = Inr tm"
    and s: "s = \<lparr>entries = Map_new decoded, initialLength = n, priv_jsonMap = jm, priv_Types = tm\<rparr>"
    by (rule Struct_new_Inr)
  have "distinct (map fst (entries s))" by (simp add: s Map_new_distinct)
  then have same: "Map_new (entries s) = entries s" by (rule Map_new_id)
  from inst have nohex: "\<not> isHexValue U value" by (cases "value") simp_all
  have first: "Struct_new U registry Ts value jm = Inr (s\<lparr>initialLength := 0\<rparr>)"
    using map nohex inst same tm unfolding Struct_new_def
    by (simp add: s del: isU8a.simps)
  have second: "case Struct_new U registry Ts' value jm' of
          Inl e \<Rightarrow> mapToTypeMap registry Ts' = Inl e
        | Inr s' \<Rightarrow> entries s' = entries s \<and> Struct_toArray s' = Struct_toArray s
                     \<and> Struct_toU8a s' isBare = Struct_toU8a s isBare"
    using map nohex inst same unfolding Struct_new_def
    by (simp add: Struct_toArray_def Struct_values_def Struct_toU8a_def del: isU8a.simps
        split: sum.splits)
  from first second show ?thesis by simp
qed

theorem Struct_new_from_Struct_witness:
  "Struct_new U0 R0 Ts0 (Struct_asValue U0 s0) [] = Inr s0"
proof -
  have inst: "asStruct (Struct_asValue U0 s0) = Some (entries s0)"
    by (simp add: Struct_asValue_def Struct_asCodec_def)
  have map: "\<not> isU8a (Struct_asValue U0 s0)"
    by (simp add: Struct_asValue_def)
  from Struct_new_from_Struct [OF s0_built inst map] show ?thesis
    by (simp add: s0_def)
qed

section \<open>Key lookup\<close>




section \<open>Absent input\<close>



section \<open>Emptiness\<close>

text \<open>
  C8. For every Struct instance, \<^verbatim>\<open>isEmpty\<close> is true if and only if every one of its
  fields is empty, that is, reports \<^verbatim>\<open>isEmpty\<close> itself.
\<close>

theorem Struct_isEmpty_iff:
  "Struct_isEmpty s \<longleftrightarrow> (\<forall>v \<in> set (Struct_toArray s). isEmpty v)"
  by (simp add: Struct_isEmpty_def Struct_toArray_def isEmpty_loop_all)

theorem Struct_isEmpty_iff_witness:
  "list_all isEmpty (Struct_toArray sEmpty) \<and> Struct_isEmpty sEmpty \<and> \<not> Struct_isEmpty s0"
proof -
  have all: "\<forall>v \<in> set (Struct_toArray sEmpty). isEmpty v"
    by (simp add: sEmpty_def Struct_toArray_def Struct_values_def Text_codec_def Text_isEmpty_def)
  have some: "\<not> (\<forall>v \<in> set (Struct_toArray s0). isEmpty v)"
    by (simp add: s0_def Struct_toArray_def Struct_values_def Text_codec_def Text_isEmpty_def)
  from Struct_isEmpty_iff [of sEmpty] Struct_isEmpty_iff [of s0] all some show ?thesis
    by (simp add: list_all_iff)
qed

section \<open>Byte length of a text\<close>

text \<open>
  C9. The byte length reported by a Text codec counts the compact length prefix and the
  UTF-8 bytes, not characters: the Text constructed from the two characters U+4E2D U+6587
  has \<^verbatim>\<open>encodedLength\<close> 7 (1 compact-length byte and 6 UTF-8 bytes) and logical length 2.
\<close>

theorem Text_byte_length:
  "Text_new toStr (JStr [20013, 25991]) = Inr (Text_codec [20013, 25991] 0)
   \<and> encodedLength (Text_codec [20013, 25991] 0) = 7
   \<and> length (compactToU8a (length (stringToU8a [20013, 25991]))) = 1
   \<and> length (stringToU8a [20013, 25991]) = 6
   \<and> Text_length [20013, 25991] = 2
   \<and> toU8a (Text_codec [20013, 25991] 0) BareUndefined = [24, 228, 184, 173, 230, 150, 135]
   \<and> encodedLength (Text_codec t n)
       = length (compactToU8a (length (stringToU8a t))) + length (stringToU8a t)"
  by (simp add: Text_new_def Text_decode_def Text_codec_def Text_encodedLength_def Text_length_def
      Text_toU8a_def stringToU8a_def utf8_char_def compactToU8a_def)

section \<open>Iteration order\<close>

text \<open>
  C10, as amended. For every Struct instance constructed from an input that is not a
  Struct instance with other keys or another key order, iteration order equals declared
  field order: \<^verbatim>\<open>defKeys\<close> lists the declared keys in declaration order, \<^verbatim>\<open>toArray()\<close>
  returns the field codecs in that same order, and for every index \<open>i\<close> below the field
  count, \<^verbatim>\<open>getAtIndex(i)\<close> returns the codec stored at the \<open>i\<close>-th declared key.
\<close>

theorem Struct_iteration_order:
  assumes new: "Struct_new U registry Ts value jm = Inr s"
    and keys: "distinct (map fst Ts)"
    and same: "case asStruct value of None \<Rightarrow> True | Some es \<Rightarrow> map fst es = map fst Ts"
  shows "Struct_defKeys s = map fst Ts
    \<and> zip (Struct_defKeys s) (Struct_toArray s) = entries s
    \<and> (\<forall>i < length (Struct_defKeys s).
          Struct_getAtIndex s i = Some (Struct_toArray s ! i)
          \<and> Struct_get s (Struct_defKeys s ! i) = Some (Struct_toArray s ! i))"
proof -
  from same have "\<forall>es. asStruct value = Some es \<longrightarrow> map fst es = map fst Ts"
    by (auto split: option.splits)
  from Struct_new_keys [OF new keys this]
  have ek: "map fst (entries s) = map fst Ts" and tk: "map fst (priv_Types s) = map fst Ts"
    by simp_all
  have dk: "Struct_defKeys s = map fst Ts" by (simp add: Struct_defKeys_def tk)
  have arr: "Struct_toArray s = map snd (entries s)"
    by (simp add: Struct_toArray_def Struct_values_def)
  have z: "zip (Struct_defKeys s) (Struct_toArray s) = entries s"
    by (simp add: dk arr ek [symmetric] zip_map_fst_snd)
  have len: "length (entries s) = length Ts" using ek by (metis length_map)
  have d: "distinct (map fst (entries s))" using ek keys by simp
  have "\<forall>i < length (Struct_defKeys s).
          Struct_getAtIndex s i = Some (Struct_toArray s ! i)
          \<and> Struct_get s (Struct_defKeys s ! i) = Some (Struct_toArray s ! i)"
  proof (intro allI impI)
    fix i assume "i < length (Struct_defKeys s)"
    then have i: "i < length (entries s)" by (simp add: dk len)
    have "Struct_defKeys s ! i = fst (entries s ! i)"
      using i by (simp add: dk ek [symmetric])
    with Struct_get_nth [OF d i] i
    show "Struct_getAtIndex s i = Some (Struct_toArray s ! i)
          \<and> Struct_get s (Struct_defKeys s ! i) = Some (Struct_toArray s ! i)"
      by (simp add: Struct_getAtIndex_def arr)
  qed
  with dk z show ?thesis by simp
qed

theorem Struct_iteration_order_witness:
  "Struct_defKeys s0 = [''a'', ''b''] \<and> zip (Struct_defKeys s0) (Struct_toArray s0) = entries s0
   \<and> Struct_getAtIndex s0 1 = Some (Text_codec [20013, 25991] 0)
   \<and> Struct_get s0 ''b'' = Some (Text_codec [20013, 25991] 0)"
proof -
  have d: "distinct (map fst Ts0)" by (simp add: Ts0_def)
  have n: "case asStruct (JObj [(''b'', JStr [20013, 25991]), (''a'', JStr [121, 122])]) of
             None \<Rightarrow> True | Some es \<Rightarrow> map fst es = map fst Ts0" by simp
  from Struct_iteration_order [OF s0_built d n] show ?thesis
    by (simp add: Ts0_def s0_def Struct_toArray_def Struct_values_def Struct_defKeys_def
        Struct_get_def Struct_getAtIndex_def)
qed

text \<open>
  C10 as stated fails for an instance constructed from a Struct instance of another key
  order, whose entries are taken as they are: index 0 holds the field \<^verbatim>\<open>a\<close>, the first
  declared key is \<^verbatim>\<open>b\<close>.
\<close>

theorem Struct_iteration_order_counterexample:
  "Struct_new U0 R0 Ts1 (Struct_asValue U0 s0) [] = Inr sSwapped
   \<and> Struct_defKeys sSwapped = [''b'', ''a'']
   \<and> map_option encodedLength (Struct_getAtIndex sSwapped 0) = Some 3
   \<and> map_option encodedLength (Struct_get sSwapped (Struct_defKeys sSwapped ! 0)) = Some 7"
  by (simp add: Struct_new_def Ts1_def R0_def typeToConstructor_def Struct_asValue_def
      Struct_asCodec_def Map_new_def s0_def sSwapped_def Struct_defKeys_def Struct_getAtIndex_def
      Struct_toArray_def Struct_values_def Struct_get_def Text_codec_def Text_encodedLength_def
      stringToU8a_def utf8_char_def compactToU8a_def)

end
